theory Spec2Isabelle
  imports Main "HOL-Library.Sublist"
begin

section \<open>Python string operations used by run.py\<close>

text \<open>
  Python strings are modelled as \<^typ>\<open>string\<close>. Only the operations that
  \<^verbatim>\<open>run.py\<close> calls are modelled: the substring test \<^verbatim>\<open>sub in s\<close>,
  \<^verbatim>\<open>s.split(sep)\<close> for a non-empty separator, \<^verbatim>\<open>s.strip()\<close> and
  \<^verbatim>\<open>s.endswith(suf)\<close>.
\<close>

fun contains :: "string \<Rightarrow> string \<Rightarrow> bool" where
  "contains sub [] = (sub = [])"
| "contains sub (c # cs) = (prefix sub (c # cs) \<or> contains sub cs)"

text \<open>
  \<^verbatim>\<open>s.split(sep)\<close> scans from the left, cuts at each occurrence of \<open>sep\<close> and
  resumes behind it; \<open>cur\<close> is the piece collected so far. Both call sites of
  \<^verbatim>\<open>run.py\<close> pass a non-empty literal separator (Python raises on an empty one).
\<close>

function split_acc :: "string \<Rightarrow> string \<Rightarrow> string \<Rightarrow> string list" where
  "split_acc sep cur [] = [cur]"
| "split_acc sep cur (c # cs) =
     (if sep \<noteq> [] \<and> prefix sep (c # cs)
      then cur # split_acc sep [] (drop (length sep) (c # cs))
      else split_acc sep (cur @ [c]) cs)"
  by pat_completeness auto
termination
  by (relation "measure (\<lambda>(sep, cur, s). length s)") auto

definition str_split :: "string \<Rightarrow> string \<Rightarrow> string list" where
  "str_split sep s = split_acc sep [] s"

text \<open>
  \<^verbatim>\<open>str.isspace\<close> on the code points below 256: tab to carriage return, the four
  separators 28 to 31, space, NEL (133) and the no-break space (160).
\<close>

definition isspace :: "char \<Rightarrow> bool" where
  "isspace c = ((of_char c :: nat) \<in> set [9, 10, 11, 12, 13, 28, 29, 30, 31, 32, 133, 160])"

definition strip :: "string \<Rightarrow> string" where
  "strip s = rev (dropWhile isspace (rev (dropWhile isspace s)))"

definition endswith :: "string \<Rightarrow> string \<Rightarrow> bool" where
  "endswith s suf = (length suf \<le> length s \<and> drop (length s - length suf) s = suf)"

abbreviation newline :: string where
  "newline \<equiv> [CHR 0x0A]"


section \<open>Exceptions, effects and the host environment\<close>

text \<open>
  The exception classes that the handlers of \<^verbatim>\<open>run.py\<close> tell apart, each with its
  message. \<open>SubprocessError\<close> stands for \<^verbatim>\<open>subprocess.SubprocessError\<close> and its
  subclass \<^verbatim>\<open>CalledProcessError\<close>; \<open>OtherException\<close> for every other subclass of
  \<^verbatim>\<open>Exception\<close> (\<^verbatim>\<open>PermissionError\<close>, \<^verbatim>\<open>URLError\<close>, \<^verbatim>\<open>BadZipFile\<close>, ...);
  \<open>NonException\<close> for what derives from \<^verbatim>\<open>BaseException\<close> only
  (\<^verbatim>\<open>KeyboardInterrupt\<close>, \<^verbatim>\<open>SystemExit\<close>), which \<^verbatim>\<open>except Exception\<close> lets through.
\<close>

datatype exn =
    FileNotFoundError string
  | SubprocessError string
  | IndexError string
  | OtherException string
  | NonException string

fun is_Exception :: "exn \<Rightarrow> bool" where
  "is_Exception (NonException m) = False"
| "is_Exception e = True"

text \<open>The classes named by \<^verbatim>\<open>except (subprocess.SubprocessError, FileNotFoundError)\<close>.\<close>

fun is_missing_tool :: "exn \<Rightarrow> bool" where
  "is_missing_tool (FileNotFoundError m) = True"
| "is_missing_tool (SubprocessError m) = True"
| "is_missing_tool e = False"

text \<open>\<^verbatim>\<open>str(e)\<close>, as the f-strings of the handlers format it.\<close>

fun str_of :: "exn \<Rightarrow> string" where
  "str_of (FileNotFoundError m) = m"
| "str_of (SubprocessError m) = m"
| "str_of (IndexError m) = m"
| "str_of (OtherException m) = m"
| "str_of (NonException m) = m"

text \<open>What \<^verbatim>\<open>subprocess.run\<close> returns: exit status and the captured streams.\<close>

datatype completed = CompletedProcess (returncode: int) (stdout: string) (stderr: string)

text \<open>
  The effects a call has on its surroundings, in the order they happen. An effect that
  raises is still recorded: it was attempted.
\<close>

datatype effect =
    Print string
  | Spawn "string list"
  | MakeDirs string
  | UrlRetrieve string string
  | ExtractAll string string
  | CopyFile string string
  | RmTree string

fun is_network :: "effect \<Rightarrow> bool" where
  "is_network (UrlRetrieve u p) = True"
| "is_network e = False"

fun is_fs_write :: "effect \<Rightarrow> bool" where
  "is_fs_write (MakeDirs p) = True"
| "is_fs_write (UrlRetrieve u p) = True"
| "is_fs_write (ExtractAll z d) = True"
| "is_fs_write (CopyFile s d) = True"
| "is_fs_write (RmTree p) = True"
| "is_fs_write e = False"

text \<open>
  Everything \<^verbatim>\<open>run.py\<close> asks of the interpreter, the operating system and the network is a
  field of the host: the answer the library call gives, or the exception it raises
  (\<open>None\<close> in an \<open>exn option\<close> is a call that returned). The file system is read
  twice by \<^verbatim>\<open>download_youtube_audio\<close>: on entry (\<open>exists_before\<close>) and after the
  retrieval tool has run (\<open>exists_after\<close>, \<open>listdir\<close>). \<open>script_abspath\<close> is the
  value of \<^verbatim>\<open>os.path.abspath(__file__)\<close>, which lines 24 and 41 both compute.
  \<open>created\<close> is the creation time of a path; no code of \<^verbatim>\<open>run.py\<close> reads it.
\<close>

record host =
  frozen :: bool
  platform_system :: string
  sys_executable :: string
  script_abspath :: string
  path_join :: "string \<Rightarrow> string \<Rightarrow> string"
  path_dirname :: "string \<Rightarrow> string"
  exists_before :: "string \<Rightarrow> bool"
  makedirs :: "string \<Rightarrow> bool \<Rightarrow> exn option"
  run :: "string list \<Rightarrow> exn + completed"
  exists_after :: "string \<Rightarrow> bool"
  listdir :: "string \<Rightarrow> exn + string list"
  created :: "string \<Rightarrow> nat"
  urlretrieve :: "string \<Rightarrow> string \<Rightarrow> exn option"
  extractall :: "string \<Rightarrow> string \<Rightarrow> exn option"
  walk :: "string \<Rightarrow> (string \<times> string list \<times> string list) list"
  copy :: "string \<Rightarrow> string \<Rightarrow> exn option"
  rmtree :: "string \<Rightarrow> exn option"

text \<open>
  A computation yields the effects it had and either the exception it raised (\<open>Inl\<close>)
  or the value it returned (\<open>Inr\<close>).
\<close>

type_synonym 'a io = "effect list \<times> (exn + 'a)"

definition io_return :: "'a \<Rightarrow> 'a io" where
  "io_return x = ([], Inr x)"

definition io_raise :: "exn \<Rightarrow> 'a io" where
  "io_raise e = ([], Inl e)"

definition io_bind :: "'a io \<Rightarrow> ('a \<Rightarrow> 'b io) \<Rightarrow> 'b io" where
  "io_bind m f =
     (case m of
        (t, Inl e) \<Rightarrow> (t, Inl e)
      | (t, Inr x) \<Rightarrow> (case f x of (t', r) \<Rightarrow> (t @ t', r)))"

text \<open>\<^verbatim>\<open>try: m except classes as e: handler(e)\<close>.\<close>

definition io_try :: "'a io \<Rightarrow> (exn \<Rightarrow> bool) \<Rightarrow> (exn \<Rightarrow> 'a io) \<Rightarrow> 'a io" where
  "io_try m catches handler =
     (case m of
        (t, Inr x) \<Rightarrow> (t, Inr x)
      | (t, Inl e) \<Rightarrow>
          (if catches e then (case handler e of (t', r) \<Rightarrow> (t @ t', r)) else (t, Inl e)))"

definition io_print :: "string \<Rightarrow> unit io" where
  "io_print s = ([Print s], Inr ())"

text \<open>A library call with an effect: it is recorded, then returns or raises.\<close>

definition io_attempt :: "effect \<Rightarrow> exn option \<Rightarrow> unit io" where
  "io_attempt eff outcome = ([eff], (case outcome of None \<Rightarrow> Inr () | Some e \<Rightarrow> Inl e))"

text \<open>\<^verbatim>\<open>subprocess.run(cmd, capture_output=True, ...)\<close>.\<close>

definition io_run :: "host \<Rightarrow> string list \<Rightarrow> completed io" where
  "io_run w cmd = ([Spawn cmd], run w cmd)"


section \<open>download\_youtube\_audio\<close>

definition marker :: string where
  "marker = ''[ExtractAudio] Destination:''"

definition dest_sep :: string where
  "dest_sep = ''[ExtractAudio] Destination: ''"

text \<open>Lines 64 to 76: the paths of the two tools.\<close>

definition tool_paths :: "host \<Rightarrow> string \<times> string" where
  "tool_paths w =
     (if frozen w then
        (let base_path = path_dirname w (sys_executable w) in
         if platform_system w = ''Windows'' then
           (path_join w base_path ''yt-dlp.exe'', path_join w base_path ''ffmpeg.exe'')
         else if platform_system w = ''Darwin'' then
           (path_join w base_path ''yt-dlp'', path_join w base_path ''ffmpeg'')
         else (''yt-dlp'', ''ffmpeg''))
      else (''yt-dlp'', ''ffmpeg''))"

text \<open>Lines 62 and 78 to 88: the command line.\<close>

definition command :: "host \<Rightarrow> string \<Rightarrow> string \<Rightarrow> string list" where
  "command w url output_folder =
     (case tool_paths w of
        (yt_dlp_path, ffmpeg_path) \<Rightarrow>
          [yt_dlp_path,
           ''-f'', ''bestaudio'',
           ''-o'', path_join w output_folder ''%(title)s.%(ext)s'',
           ''--extract-audio'',
           ''--audio-format'', ''mp3'',
           ''--audio-quality'', ''0'',
           ''--restrict-filenames'',
           ''--ffmpeg-location'', path_dirname w ffmpeg_path,
           url])"

text \<open>
  Line 104: \<^verbatim>\<open>line.split("[ExtractAudio] Destination: ")[1].strip()\<close>. The index 1 is
  out of range when the separator does not occur, and Python raises \<^verbatim>\<open>IndexError\<close>.
\<close>

definition destination_of :: "string \<Rightarrow> exn + string" where
  "destination_of line =
     (case str_split dest_sep line of
        a # b # rest \<Rightarrow> Inr (strip b)
      | _ \<Rightarrow> Inl (IndexError ''list index out of range''))"

text \<open>Lines 100 to 105: the loop over the output lines; the result is \<^verbatim>\<open>mp3_file\<close>.\<close>

fun find_destination :: "string list \<Rightarrow> exn + string option" where
  "find_destination [] = Inr None"
| "find_destination (line # rest) =
     (if contains marker line then
        (case destination_of line of Inl e \<Rightarrow> Inl e | Inr p \<Rightarrow> Inr (Some p))
      else find_destination rest)"

text \<open>
  Line 107: \<^verbatim>\<open>not mp3_file or not os.path.exists(mp3_file)\<close> fails, that is, the
  reported path is kept, when \<^verbatim>\<open>mp3_file\<close> is a non-empty string naming an existing path.
\<close>

definition located :: "host \<Rightarrow> string option \<Rightarrow> string option" where
  "located w mp3_file =
     (case mp3_file of
        None \<Rightarrow> None
      | Some p \<Rightarrow> (if p = [] then None else if exists_after w p then Some p else None))"

text \<open>Lines 117 and 118.\<close>

definition report_file :: "string \<Rightarrow> string option io" where
  "report_file mp3_file =
     io_bind (io_print (''Downloaded and converted to MP3: '' @ mp3_file))
       (\<lambda>_. io_return (Some mp3_file))"

text \<open>Lines 108 to 115: the fallback, and then lines 117 and 118.\<close>

definition fallback_scan :: "host \<Rightarrow> string \<Rightarrow> string option io" where
  "fallback_scan w output_folder =
     (case listdir w output_folder of
        Inl e \<Rightarrow> io_raise e
      | Inr names \<Rightarrow>
          (let mp3_files =
                 map (path_join w output_folder) (filter (\<lambda>f. endswith f ''.mp3'') names)
           in if mp3_files \<noteq> [] then report_file (last mp3_files)
              else io_bind (io_print ''Download completed but MP3 file not found.'')
                     (\<lambda>_. io_return None)))"

text \<open>Lines 58 to 118: the body of the \<^verbatim>\<open>try\<close>.\<close>

definition download_body :: "host \<Rightarrow> string \<Rightarrow> string \<Rightarrow> string option io" where
  "download_body w url output_folder =
     io_bind (io_print (''Attempting to access: '' @ url)) (\<lambda>_.
     io_bind (io_print ''Running download command...'') (\<lambda>_.
     io_bind (io_run w (command w url output_folder)) (\<lambda>result.
       if returncode result \<noteq> 0 then
         io_bind (io_print (''Error downloading: '' @ stderr result)) (\<lambda>_. io_return None)
       else
         (case find_destination (str_split newline (stdout result)) of
            Inl e \<Rightarrow> io_raise e
          | Inr mp3_file \<Rightarrow>
              (case located w mp3_file of
                 Some p \<Rightarrow> report_file p
               | None \<Rightarrow> fallback_scan w output_folder)))))"

text \<open>Lines 54 and 55, before the \<^verbatim>\<open>try\<close>.\<close>

definition ensure_folder :: "host \<Rightarrow> string \<Rightarrow> unit io" where
  "ensure_folder w output_folder =
     (if \<not> exists_before w output_folder
      then io_attempt (MakeDirs output_folder) (makedirs w output_folder False)
      else io_return ())"

definition download_youtube_audio :: "host \<Rightarrow> string \<Rightarrow> string \<Rightarrow> string option io" where
  "download_youtube_audio w url output_folder =
     io_bind (ensure_folder w output_folder) (\<lambda>_.
       io_try (download_body w url output_folder) is_Exception
         (\<lambda>e. io_bind (io_print (''Unexpected error: '' @ str_of e)) (\<lambda>_. io_return None)))"


section \<open>ensure\_ffmpeg\_installed\<close>

definition ffmpeg_url :: string where
  "ffmpeg_url = ''https://github.com/BtbN/FFmpeg-Builds/releases/download/latest/ffmpeg-master-latest-win64-gpl.zip''"

text \<open>\<^verbatim>\<open>subprocess.run(cmd, capture_output=True, check=True)\<close>: a non-zero status raises.\<close>

definition run_checked :: "host \<Rightarrow> string list \<Rightarrow> completed io" where
  "run_checked w cmd =
     io_bind (io_run w cmd) (\<lambda>r.
       if returncode r \<noteq> 0 then io_raise (SubprocessError ''returned non-zero exit status'')
       else io_return r)"

text \<open>Lines 37 to 42: the walk stops at the first directory holding \<^verbatim>\<open>ffmpeg.exe\<close>.\<close>

fun copy_first :: "host \<Rightarrow> string \<Rightarrow> (string \<times> string list \<times> string list) list \<Rightarrow> unit io" where
  "copy_first w dst [] = io_return ()"
| "copy_first w dst ((root, dirs, files) # rest) =
     (if ''ffmpeg.exe'' \<in> set files then
        (let ffmpeg_path = path_join w root ''ffmpeg.exe''
         in io_attempt (CopyFile ffmpeg_path dst) (copy w ffmpeg_path dst))
      else copy_first w dst rest)"

text \<open>Lines 23 to 47: the body of the inner \<^verbatim>\<open>try\<close>.\<close>

definition fetch_ffmpeg :: "host \<Rightarrow> bool io" where
  "fetch_ffmpeg w =
     (let here = path_dirname w (script_abspath w);
          temp_dir = path_join w here ''temp'';
          zip_path = path_join w temp_dir ''ffmpeg.zip''
      in
        io_bind (io_attempt (MakeDirs temp_dir) (makedirs w temp_dir True)) (\<lambda>_.
        io_bind (io_attempt (UrlRetrieve ffmpeg_url zip_path) (urlretrieve w ffmpeg_url zip_path)) (\<lambda>_.
        io_bind (io_attempt (ExtractAll zip_path temp_dir) (extractall w zip_path temp_dir)) (\<lambda>_.
        io_bind (copy_first w here (walk w temp_dir)) (\<lambda>_.
        io_bind (io_attempt (RmTree temp_dir) (rmtree w temp_dir)) (\<lambda>_.
        io_bind (io_print ''FFmpeg downloaded successfully.'') (\<lambda>_.
        io_return True)))))))"

definition ensure_ffmpeg_installed :: "host \<Rightarrow> bool io" where
  "ensure_ffmpeg_installed w =
     io_try (io_bind (run_checked w [''ffmpeg'', ''-version'']) (\<lambda>_. io_return True))
       is_missing_tool
       (\<lambda>_. if platform_system w \<noteq> ''Windows'' then
               io_bind (io_print ''FFmpeg is not installed. Please install it manually.'')
                 (\<lambda>_. io_return False)
             else
               io_bind (io_print ''FFmpeg not found. Downloading...'') (\<lambda>_.
                 io_try (fetch_ffmpeg w) is_Exception
                   (\<lambda>e. io_bind (io_print (''Error downloading FFmpeg: '' @ str_of e))
                          (\<lambda>_. io_return False))))"


section \<open>Hosts for the concrete runs\<close>

text \<open>
  \<^verbatim>\<open>posixpath.join\<close> of two components and \<^verbatim>\<open>posixpath.dirname\<close>.
\<close>

definition posix_join :: "string \<Rightarrow> string \<Rightarrow> string" where
  "posix_join a b =
     (if prefix ''/'' b then b
      else if a = [] then b
      else if endswith a ''/'' then a @ b
      else a @ ''/'' @ b)"

definition posix_dirname :: "string \<Rightarrow> string" where
  "posix_dirname p =
     (let head = rev (dropWhile (\<lambda>c. c \<noteq> CHR ''/'') (rev p))
      in if filter (\<lambda>c. c \<noteq> CHR ''/'') head \<noteq> []
         then rev (dropWhile (\<lambda>c. c = CHR ''/'') (rev head))
         else head)"

text \<open>
  A Linux machine running the script unpackaged, with neither tool installed: spawning
  any command raises \<^verbatim>\<open>FileNotFoundError\<close>. The folder \<^verbatim>\<open>downloads\<close> exists and is
  empty.
\<close>

definition linux_host :: host where
  "linux_host =
     \<lparr> frozen = False,
       platform_system = ''Linux'',
       sys_executable = ''/usr/bin/python3'',
       script_abspath = ''/home/user/run.py'',
       path_join = posix_join,
       path_dirname = posix_dirname,
       exists_before = (\<lambda>p. p = ''downloads''),
       makedirs = (\<lambda>p exist_ok. None),
       run = (\<lambda>cmd. Inl (FileNotFoundError ''[Errno 2] No such file or directory'')),
       exists_after = (\<lambda>p. p = ''downloads''),
       listdir = (\<lambda>p. Inr []),
       created = (\<lambda>p. 0),
       urlretrieve = (\<lambda>u p. None),
       extractall = (\<lambda>z d. None),
       walk = (\<lambda>d. []),
       copy = (\<lambda>s d. None),
       rmtree = (\<lambda>d. None) \<rparr>"

definition video_url :: string where
  "video_url = ''https://www.youtube.com/watch?v=abc''"

text \<open>Scenario A of the specification: one marker line, naming a file that exists.\<close>

definition song_pre :: "string list" where
  "song_pre =
     [''[youtube] abc: Downloading webpage'',
      ''[download] Destination: downloads/song.webm'']"

definition song_line :: string where
  "song_line = ''[ExtractAudio] Destination: downloads/song.mp3''"

definition song_post :: "string list" where
  "song_post = [''Deleting original file downloads/song.webm (pass -k to keep)'', []]"

definition song_out :: string where
  "song_out =
     ''[youtube] abc: Downloading webpage'' @ newline @
     ''[download] Destination: downloads/song.webm'' @ newline @
     ''[ExtractAudio] Destination: downloads/song.mp3'' @ newline @
     ''Deleting original file downloads/song.webm (pass -k to keep)'' @ newline"

definition song_host :: host where
  "song_host =
     linux_host
       \<lparr> run := (\<lambda>cmd. Inr (CompletedProcess 0 song_out [])),
         exists_after := (\<lambda>p. p \<in> set [''downloads'', ''downloads/song.mp3'']),
         listdir := (\<lambda>p. Inr [''song.mp3'']) \<rparr>"

text \<open>
  Two marker lines: the file of the first is gone, the file of the second exists, and
  the folder holds one more MP3 file.
\<close>

definition second_line :: string where
  "second_line = ''[ExtractAudio] Destination: downloads/b.mp3''"

definition two_markers_out :: string where
  "two_markers_out =
     ''[ExtractAudio] Destination: downloads/a.mp3'' @ newline @
     ''[ExtractAudio] Destination: downloads/b.mp3''"

definition two_markers_host :: host where
  "two_markers_host =
     linux_host
       \<lparr> run := (\<lambda>cmd. Inr (CompletedProcess 0 two_markers_out [])),
         exists_after := (\<lambda>p. p \<in> set [''downloads'', ''downloads/b.mp3'', ''downloads/c.mp3'']),
         listdir := (\<lambda>p. Inr [''b.mp3'', ''c.mp3'']) \<rparr>"

text \<open>A playlist: two marker lines, both files exist.\<close>

definition playlist_pre :: "string list" where
  "playlist_pre = [''[download] Destination: downloads/a.webm'']"

definition playlist_line :: string where
  "playlist_line = ''[ExtractAudio] Destination: downloads/a.mp3''"

definition playlist_out :: string where
  "playlist_out =
     ''[download] Destination: downloads/a.webm'' @ newline @
     ''[ExtractAudio] Destination: downloads/a.mp3'' @ newline @
     ''[ExtractAudio] Destination: downloads/b.mp3''"

definition playlist_host :: host where
  "playlist_host =
     linux_host
       \<lparr> run := (\<lambda>cmd. Inr (CompletedProcess 0 playlist_out [])),
         exists_after := (\<lambda>p. p \<in> set [''downloads'', ''downloads/a.mp3'', ''downloads/b.mp3'']),
         listdir := (\<lambda>p. Inr [''a.mp3'', ''b.mp3'']) \<rparr>"

text \<open>
  The retrieval tool succeeds without a marker line (the audio needed no conversion).
  The folder lists the new file before a file left by an earlier run.
\<close>

definition stale_out :: string where
  "stale_out =
     ''[ExtractAudio] Not converting audio downloads/new.mp3; file is already in target format mp3''"

definition stale_host :: host where
  "stale_host =
     linux_host
       \<lparr> run := (\<lambda>cmd. Inr (CompletedProcess 0 stale_out [])),
         exists_after := (\<lambda>p. p \<in> set [''downloads'', ''downloads/new.mp3'', ''downloads/old.mp3'']),
         listdir := (\<lambda>p. Inr [''new.mp3'', ''old.mp3'']),
         created := (\<lambda>p. if p = ''downloads/new.mp3'' then 200
                          else if p = ''downloads/old.mp3'' then 100 else 0) \<rparr>"

text \<open>Scenario B of the specification: exit status 1.\<close>

definition unavailable_host :: host where
  "unavailable_host =
     linux_host \<lparr> run := (\<lambda>cmd. Inr (CompletedProcess 1 [] ''video unavailable'')) \<rparr>"

text \<open>Exit status 0, no marker line, and no MP3 file in the folder.\<close>

definition no_output_host :: host where
  "no_output_host =
     linux_host
       \<lparr> run := (\<lambda>cmd. Inr (CompletedProcess 0 ''[download] 100%'' [])),
         listdir := (\<lambda>p. Inr [''notes.txt'']) \<rparr>"

text \<open>The output folder is missing and cannot be created.\<close>

definition readonly_host :: host where
  "readonly_host =
     linux_host
       \<lparr> exists_before := (\<lambda>p. False),
         makedirs := (\<lambda>p exist_ok. Some (OtherException ''[Errno 13] Permission denied'')) \<rparr>"

text \<open>The transcoder is installed.\<close>

definition ready_host :: host where
  "ready_host =
     linux_host \<lparr> run := (\<lambda>cmd. Inr (CompletedProcess 0 ''ffmpeg version 6.0'' [])) \<rparr>"

text \<open>
  A Windows machine without the transcoder; the download and the extraction succeed,
  and the archive holds no file named \<^verbatim>\<open>ffmpeg.exe\<close>. The functions of
  \<^verbatim>\<open>os.path\<close> and the locations of the interpreter and of the script are left open:
  what follows holds whatever they are.
\<close>

definition windows_host ::
  "(string \<Rightarrow> string \<Rightarrow> string) \<Rightarrow> (string \<Rightarrow> string) \<Rightarrow> string \<Rightarrow> string \<Rightarrow> host" where
  "windows_host join dirname python script =
     linux_host
       \<lparr> platform_system := ''Windows'',
         sys_executable := python,
         script_abspath := script,
         path_join := join,
         path_dirname := dirname,
         walk := (\<lambda>d. [(d, [''doc''], [''ffmpeg.zip'', ''LICENSE.txt'']),
                        (join d ''doc'', [], [''ffmpeg.html''])]) \<rparr>"

text \<open>
  The retrieval tool succeeds without a marker line, and the folder lists
  \<^verbatim>\<open>l.mp3\<close>, a symbolic link whose target is gone: \<^verbatim>\<open>os.listdir\<close> names it and
  \<^verbatim>\<open>os.path.exists\<close> is false for it.
\<close>

definition dangling_host :: host where
  "dangling_host =
     linux_host
       \<lparr> run := (\<lambda>cmd. Inr (CompletedProcess 0 ''[download] 100%'' [])),
         listdir := (\<lambda>p. Inr [''l.mp3'']) \<rparr>"

fun is_copy :: "effect \<Rightarrow> bool" where
  "is_copy (CopyFile s d) = True"
| "is_copy e = False"

section \<open>Facts about the model\<close>

lemmas io_defs =
  io_bind_def io_try_def io_print_def io_run_def io_return_def io_raise_def io_attempt_def

lemmas model_defs =
  download_youtube_audio_def ensure_folder_def download_body_def command_def tool_paths_def
  fallback_scan_def report_file_def located_def destination_of_def str_split_def
  marker_def dest_sep_def strip_def isspace_def endswith_def
  ensure_ffmpeg_installed_def run_checked_def fetch_ffmpeg_def ffmpeg_url_def
  posix_join_def posix_dirname_def

lemmas host_defs =
  linux_host_def video_url_def song_pre_def song_line_def song_post_def song_out_def
  song_host_def second_line_def two_markers_out_def two_markers_host_def playlist_pre_def
  playlist_line_def playlist_out_def playlist_host_def stale_out_def
  stale_host_def unavailable_host_def no_output_host_def readonly_host_def ready_host_def
  windows_host_def dangling_host_def

lemma find_destination_first:
  "\<forall>l\<in>set pre. \<not> contains marker l \<Longrightarrow> contains marker line \<Longrightarrow>
   find_destination (pre @ line # post) =
     (case destination_of line of Inl e \<Rightarrow> Inl e | Inr p \<Rightarrow> Inr (Some p))"
  by (induction pre) simp_all


lemma ensure_folder_ready:
  "exists_before w output_folder \<or> makedirs w output_folder False = None \<Longrightarrow>
   snd (ensure_folder w output_folder) = Inr ()"
  by (auto simp: ensure_folder_def io_defs)

text \<open>Once the folder is there, the call is the \<^verbatim>\<open>try\<close> statement.\<close>

lemma download_after_folder:
  assumes "snd (ensure_folder w output_folder) = Inr ()"
  shows "download_youtube_audio w url output_folder =
           (fst (ensure_folder w output_folder) @
            fst (io_try (download_body w url output_folder) is_Exception
                  (\<lambda>e. io_bind (io_print (''Unexpected error: '' @ str_of e))
                         (\<lambda>_. io_return None))),
            snd (io_try (download_body w url output_folder) is_Exception
                  (\<lambda>e. io_bind (io_print (''Unexpected error: '' @ str_of e))
                         (\<lambda>_. io_return None))))"
  using assms
  by (cases "ensure_folder w output_folder")
     (simp add: download_youtube_audio_def io_bind_def split: prod.splits)

lemma body_nonzero:
  assumes "run w (command w url output_folder) = Inr (CompletedProcess rc out err)"
    and "rc \<noteq> 0"
  shows "download_body w url output_folder =
     ([Print (''Attempting to access: '' @ url), Print ''Running download command...'',
       Spawn (command w url output_folder), Print (''Error downloading: '' @ err)], Inr None)"
  using assms by (simp add: download_body_def io_defs)

lemma body_zero:
  assumes "run w (command w url output_folder) = Inr (CompletedProcess 0 out err)"
  shows "download_body w url output_folder =
     (case find_destination (str_split newline out) of
        Inl e \<Rightarrow>
          ([Print (''Attempting to access: '' @ url), Print ''Running download command...'',
            Spawn (command w url output_folder)], Inl e)
      | Inr mp3_file \<Rightarrow>
          (case (case located w mp3_file of
                   Some p \<Rightarrow> report_file p
                 | None \<Rightarrow> fallback_scan w output_folder) of
             (t, r) \<Rightarrow>
               ([Print (''Attempting to access: '' @ url), Print ''Running download command...'',
                 Spawn (command w url output_folder)] @ t, r)))"
  using assms by (simp add: download_body_def io_defs split: sum.splits prod.splits)

lemma located_exists: "located w m = Some p \<Longrightarrow> exists_after w p"
  by (auto simp: located_def split: option.splits if_splits)

lemma report_file_eq:
  "report_file p = ([Print (''Downloaded and converted to MP3: '' @ p)], Inr (Some p))"
  by (simp add: report_file_def io_defs)

text \<open>What the fallback returns is a listed name with the extension, joined to the folder.\<close>

lemma fallback_scan_listed:
  assumes "snd (fallback_scan w output_folder) = Inr (Some p)"
  shows "\<exists>names f. listdir w output_folder = Inr names \<and> f \<in> set names \<and>
           endswith f ''.mp3'' \<and> p = path_join w output_folder f"
proof (cases "listdir w output_folder")
  case (Inl e)
  then show ?thesis using assms by (simp add: fallback_scan_def io_defs)
next
  case (Inr names)
  let ?fs = "filter (\<lambda>f. endswith f ''.mp3'') names"
  have ne: "?fs \<noteq> []" and p: "p = last (map (path_join w output_folder) ?fs)"
    using assms Inr
    by (auto simp: fallback_scan_def report_file_eq io_defs Let_def split: if_splits)
  from ne have "last ?fs \<in> set ?fs" by (rule last_in_set)
  moreover from ne p have "p = path_join w output_folder (last ?fs)" by (simp add: last_map)
  ultimately show ?thesis using Inr by auto
qed

lemma body_result_from:
  assumes "snd (download_body w url output_folder) = Inr (Some p)"
  shows "exists_after w p \<or> snd (fallback_scan w output_folder) = Inr (Some p)"
proof (cases "run w (command w url output_folder)")
  case (Inl e)
  then show ?thesis using assms by (simp add: download_body_def io_defs)
next
  case (Inr result)
  then show ?thesis using assms
    by (auto simp: download_body_def io_defs report_file_eq
             split: if_splits sum.splits option.splits prod.splits dest: located_exists)
qed

lemma download_result_from_body:
  assumes "snd (download_youtube_audio w url output_folder) = Inr (Some p)"
  shows "snd (download_body w url output_folder) = Inr (Some p)"
  using assms
  by (cases "ensure_folder w output_folder"; cases "download_body w url output_folder")
     (auto simp: download_youtube_audio_def io_defs split: sum.splits if_splits)

text \<open>Every exception of class \<^verbatim>\<open>Exception\<close> raised inside the \<^verbatim>\<open>try\<close> is handled.\<close>

lemma try_body_exception_caught:
  assumes "exists_before w output_folder \<or> makedirs w output_folder False = None"
    and "is_Exception e"
  shows "snd (download_youtube_audio w url output_folder) \<noteq> Inl e \<and>
         (snd (download_body w url output_folder) = Inl e \<longrightarrow>
            snd (download_youtube_audio w url output_folder) = Inr None \<and>
            last (fst (download_youtube_audio w url output_folder)) =
              Print (''Unexpected error: '' @ str_of e))"
  using download_after_folder [OF ensure_folder_ready [OF assms(1)], of url] assms(2)
  by (cases "download_body w url output_folder")
     (auto simp: io_defs split: sum.splits)

text \<open>
  On a file system where every listed name exists, so does every returned path.
\<close>

lemma returned_path_exists_if_listed_exist:
  assumes "snd (download_youtube_audio w url output_folder) = Inr (Some p)"
    and "\<forall>names. listdir w output_folder = Inr names \<longrightarrow>
           (\<forall>f\<in>set names. exists_after w (path_join w output_folder f))"
  shows "exists_after w p"
  using body_result_from [OF download_result_from_body [OF assms(1)]] assms(2)
  by (auto dest: fallback_scan_listed)

lemma destination_of_error:
  "destination_of line = Inl e \<Longrightarrow> e = IndexError ''list index out of range''"
  by (auto simp: destination_of_def split: list.splits)


section \<open>The claims\<close>

subsection \<open>C1\<close>

text \<open>
  C1, as stated: whenever the retrieval tool exits with status 0 and its output contains
  a line with the marker whose path names an existing file, the function returns exactly
  that path. This fails when that line is not the first marker line: below, the second
  marker line names the existing file \<^verbatim>\<open>downloads/b.mp3\<close>, the first names a file
  that is gone, and the function returns \<^verbatim>\<open>downloads/c.mp3\<close> from the fallback.
\<close>

theorem later_marker_line_counterexample:
  "run two_markers_host (command two_markers_host video_url ''downloads'') =
     Inr (CompletedProcess 0 two_markers_out []) \<and>
   second_line \<in> set (str_split newline two_markers_out) \<and>
   contains marker second_line \<and>
   destination_of second_line = Inr ''downloads/b.mp3'' \<and>
   exists_after two_markers_host ''downloads/b.mp3'' \<and>
   snd (download_youtube_audio two_markers_host video_url ''downloads'') =
     Inr (Some ''downloads/c.mp3'') \<and>
   snd (download_youtube_audio two_markers_host video_url ''downloads'') \<noteq>
     Inr (Some ''downloads/b.mp3'')"
  by (simp add: host_defs model_defs io_defs)

text \<open>
  C1, amended: when the output folder exists or is created, the retrieval tool exits with
  status 0, and the first line of its output that contains the marker has the marker
  followed by a space and then, stripped of surrounding white space, a non-empty path
  \<open>p\<close> that exists, the function returns exactly \<open>p\<close>.
\<close>

theorem marker_path_returned:
  assumes "exists_before w output_folder \<or> makedirs w output_folder False = None"
    and "run w (command w url output_folder) = Inr (CompletedProcess 0 out err)"
    and "str_split newline out = pre @ line # post"
    and "\<forall>l\<in>set pre. \<not> contains marker l"
    and "contains marker line"
    and "destination_of line = Inr p"
    and "p \<noteq> []"
    and "exists_after w p"
  shows "snd (download_youtube_audio w url output_folder) = Inr (Some p)"
proof -
  have "find_destination (str_split newline out) = Inr (Some p)"
    using find_destination_first [OF assms(4,5), of post] assms(3,6) by simp
  moreover have "located w (Some p) = Some p"
    using assms(7,8) by (simp add: located_def)
  ultimately have "snd (download_body w url output_folder) = Inr (Some p)"
    using body_zero [OF assms(2)] by (simp add: report_file_def io_defs)
  then show ?thesis
    using download_after_folder [OF ensure_folder_ready [OF assms(1)], of url]
    by (simp add: io_try_def split: prod.splits sum.splits)
qed

theorem marker_path_returned_witness:
  "snd (download_youtube_audio song_host video_url ''downloads'') =
     Inr (Some ''downloads/song.mp3'')"
proof -
  have h1: "exists_before song_host ''downloads'' \<or> makedirs song_host ''downloads'' False = None"
    by (simp add: host_defs)
  have h2: "run song_host (command song_host video_url ''downloads'') =
              Inr (CompletedProcess 0 song_out [])"
    by (simp add: song_host_def)
  have h3: "str_split newline song_out = song_pre @ song_line # song_post"
    by (simp add: host_defs str_split_def)
  have h4: "\<forall>l\<in>set song_pre. \<not> contains marker l"
    by (simp add: host_defs marker_def)
  have h5: "contains marker song_line"
    by (simp add: host_defs marker_def)
  have h6: "destination_of song_line = Inr ''downloads/song.mp3''"
    by (simp add: host_defs model_defs)
  have h7: "''downloads/song.mp3'' \<noteq> []"
    by simp
  have h8: "exists_after song_host ''downloads/song.mp3''"
    by (simp add: host_defs)
  show ?thesis
    by (rule marker_path_returned [OF h1 h2 h3 h4 h5 h6 h7 h8])
qed

subsection \<open>C2\<close>

text \<open>
  C2: without a usable marker line, the function returns the most recently created MP3
  file of the output folder. The comment at line 112 says so too, but the code takes the
  last name of the directory listing, whose order is not the order of creation: here it
  returns \<^verbatim>\<open>downloads/old.mp3\<close>, created before \<^verbatim>\<open>downloads/new.mp3\<close>.
\<close>

theorem fallback_returns_last_listed:
  "snd (download_youtube_audio stale_host video_url ''downloads'') =
     Inr (Some ''downloads/old.mp3'') \<and>
   exists_after stale_host ''downloads/new.mp3'' \<and>
   created stale_host ''downloads/old.mp3'' < created stale_host ''downloads/new.mp3''"
  by (simp add: host_defs model_defs io_defs)

subsection \<open>C3\<close>

text \<open>
  C3: every exception raised in the body of \<^verbatim>\<open>download_youtube_audio\<close> is caught and
  turned into a diagnostic and a null result. The folder is created at lines 54 and 55,
  before the \<^verbatim>\<open>try\<close> of line 57: when the folder is missing and cannot be created,
  the error of \<^verbatim>\<open>os.makedirs\<close> reaches the caller and nothing is printed.
\<close>

theorem makedirs_error_reaches_caller:
  "download_youtube_audio readonly_host video_url ''downloads'' =
     ([MakeDirs ''downloads''], Inl (OtherException ''[Errno 13] Permission denied''))"
  by (simp add: host_defs model_defs io_defs)

subsection \<open>C4\<close>

text \<open>
  C4: when the retrieval tool exits with a non-zero status, the function prints the
  captured standard error and returns null; no exception is raised. (The tool runs only
  after the output folder exists or has been created.)
\<close>

theorem nonzero_exit_returns_null:
  assumes "exists_before w output_folder \<or> makedirs w output_folder False = None"
    and "run w (command w url output_folder) = Inr (CompletedProcess rc out err)"
    and "rc \<noteq> 0"
  shows "snd (download_youtube_audio w url output_folder) = Inr None \<and>
         last (fst (download_youtube_audio w url output_folder)) =
           Print (''Error downloading: '' @ err)"
  using download_after_folder [OF ensure_folder_ready [OF assms(1)], of url]
        body_nonzero [OF assms(2,3)]
  by (simp add: io_try_def)

theorem nonzero_exit_returns_null_witness:
  "snd (download_youtube_audio unavailable_host video_url ''downloads'') = Inr None \<and>
   last (fst (download_youtube_audio unavailable_host video_url ''downloads'')) =
     Print ''Error downloading: video unavailable''"
proof -
  have h1: "exists_before unavailable_host ''downloads'' \<or>
            makedirs unavailable_host ''downloads'' False = None"
    by (simp add: host_defs)
  have h2: "run unavailable_host (command unavailable_host video_url ''downloads'') =
              Inr (CompletedProcess 1 [] ''video unavailable'')"
    by (simp add: unavailable_host_def)
  have h3: "(1::int) \<noteq> 0"
    by simp
  show ?thesis
    using nonzero_exit_returns_null [OF h1 h2 h3] by simp
qed

subsection \<open>C5\<close>

text \<open>
  C5: on Windows with the transcoder missing, \<^verbatim>\<open>ensure_ffmpeg_installed\<close> returns true
  only after producing the binary. The loop of lines 37 to 42 copies \<^verbatim>\<open>ffmpeg.exe\<close>
  when it finds it, and lines 45 to 47 report success whether or not it did: with an
  archive that holds no \<^verbatim>\<open>ffmpeg.exe\<close> the function copies nothing, prints
  \<^verbatim>\<open>FFmpeg downloaded successfully.\<close> and returns true.
\<close>

theorem success_reported_without_binary:
  "snd (ensure_ffmpeg_installed (windows_host join dirname python script)) = Inr True \<and>
   last (fst (ensure_ffmpeg_installed (windows_host join dirname python script))) =
     Print ''FFmpeg downloaded successfully.'' \<and>
   filter is_copy (fst (ensure_ffmpeg_installed (windows_host join dirname python script))) = []"
  by (simp add: host_defs model_defs io_defs Let_def)

subsection \<open>C6\<close>



subsection \<open>C7\<close>

text \<open>
  C7: a path that \<^verbatim>\<open>download_youtube_audio\<close> returns exists when it is returned. Line
  107 checks the path of the marker line with \<^verbatim>\<open>os.path.exists\<close>; the fallback of
  lines 109 to 112 returns a listed name unchecked. Here the folder lists a dangling link
  \<^verbatim>\<open>l.mp3\<close>: the function reports and returns \<^verbatim>\<open>downloads/l.mp3\<close>, which does not
  exist.
\<close>

theorem fallback_path_not_checked:
  "snd (download_youtube_audio dangling_host video_url ''downloads'') =
     Inr (Some ''downloads/l.mp3'') \<and>
   last (fst (download_youtube_audio dangling_host video_url ''downloads'')) =
     Print ''Downloaded and converted to MP3: downloads/l.mp3'' \<and>
   \<not> exists_after dangling_host ''downloads/l.mp3''"
  by (simp add: host_defs model_defs io_defs)

subsection \<open>C8\<close>

text \<open>
  C8: on a platform other than Windows with the transcoder missing,
  \<^verbatim>\<open>ensure_ffmpeg_installed\<close> prints the instruction to install it manually and returns
  false; its only other effect is the version query, and it fetches nothing.
\<close>

theorem missing_ffmpeg_not_windows:
  assumes "platform_system w \<noteq> ''Windows''"
    and "run w [''ffmpeg'', ''-version''] = Inl (FileNotFoundError m)"
  shows "ensure_ffmpeg_installed w =
           ([Spawn [''ffmpeg'', ''-version''],
             Print ''FFmpeg is not installed. Please install it manually.''], Inr False) \<and>
         filter is_network (fst (ensure_ffmpeg_installed w)) = []"
  using assms by (simp add: ensure_ffmpeg_installed_def run_checked_def io_defs)

theorem missing_ffmpeg_not_windows_witness:
  "ensure_ffmpeg_installed linux_host =
     ([Spawn [''ffmpeg'', ''-version''],
       Print ''FFmpeg is not installed. Please install it manually.''], Inr False) \<and>
   filter is_network (fst (ensure_ffmpeg_installed linux_host)) = []"
proof -
  have h1: "platform_system linux_host \<noteq> ''Windows''"
    by (simp add: linux_host_def)
  have h2: "run linux_host [''ffmpeg'', ''-version''] =
              Inl (FileNotFoundError ''[Errno 2] No such file or directory'')"
    by (simp add: linux_host_def)
  show ?thesis
    by (rule missing_ffmpeg_not_windows [OF h1 h2])
qed

subsection \<open>C9\<close>

text \<open>
  C9: a call of \<^verbatim>\<open>ensure_ffmpeg_installed\<close> made when the transcoder is present and
  answers the version query with status 0 (as the second of two successive calls is)
  returns true; its only effect is the version query, so it neither uses the network nor
  writes to the file system.
\<close>

theorem present_ffmpeg_no_effects:
  assumes "run w [''ffmpeg'', ''-version''] = Inr (CompletedProcess 0 out err)"
  shows "ensure_ffmpeg_installed w = ([Spawn [''ffmpeg'', ''-version'']], Inr True) \<and>
         filter is_network (fst (ensure_ffmpeg_installed w)) = [] \<and>
         filter is_fs_write (fst (ensure_ffmpeg_installed w)) = []"
  using assms by (simp add: ensure_ffmpeg_installed_def run_checked_def io_defs)

theorem present_ffmpeg_no_effects_witness:
  "ensure_ffmpeg_installed ready_host = ([Spawn [''ffmpeg'', ''-version'']], Inr True) \<and>
   filter is_network (fst (ensure_ffmpeg_installed ready_host)) = [] \<and>
   filter is_fs_write (fst (ensure_ffmpeg_installed ready_host)) = []"
proof -
  have h: "run ready_host [''ffmpeg'', ''-version''] =
             Inr (CompletedProcess 0 ''ffmpeg version 6.0'' [])"
    by (simp add: host_defs)
  show ?thesis
    by (rule present_ffmpeg_no_effects [OF h])
qed

subsection \<open>C10\<close>

text \<open>
  C10: when several lines of the output contain the marker, the destination is taken
  from the first of them and the later ones are ignored. The loop yields what the first
  marker line alone yields, and the whole outcome of \<^verbatim>\<open>download_youtube_audio\<close>, its
  effects and its result, is fixed by that line: its path is reported and returned when
  it is non-empty and exists, the fallback runs when it is not, and the error is reported
  when the line cannot be split. No line behind it takes part.
\<close>

theorem first_marker_line_only:
  assumes "exists_before w output_folder \<or> makedirs w output_folder False = None"
    and "run w (command w url output_folder) = Inr (CompletedProcess 0 out err)"
    and "str_split newline out = pre @ line # post"
    and "\<forall>l\<in>set pre. \<not> contains marker l"
    and "contains marker line"
  shows "find_destination (str_split newline out) =
           (case destination_of line of Inl e \<Rightarrow> Inl e | Inr p \<Rightarrow> Inr (Some p)) \<and>
         download_youtube_audio w url output_folder =
           (case (case destination_of line of
                    Inl e \<Rightarrow> ([Print (''Unexpected error: '' @ str_of e)], Inr None)
                  | Inr p \<Rightarrow>
                      if p \<noteq> [] \<and> exists_after w p
                      then ([Print (''Downloaded and converted to MP3: '' @ p)], Inr (Some p))
                      else io_try (fallback_scan w output_folder) is_Exception
                             (\<lambda>e. ([Print (''Unexpected error: '' @ str_of e)], Inr None))) of
              (t, r) \<Rightarrow>
                (fst (ensure_folder w output_folder) @
                 [Print (''Attempting to access: '' @ url), Print ''Running download command...'',
                  Spawn (command w url output_folder)] @ t, r))"
proof -
  have a: "find_destination (str_split newline out) =
           (case destination_of line of Inl e \<Rightarrow> Inl e | Inr p \<Rightarrow> Inr (Some p))"
    using find_destination_first [OF assms(4,5), of post] assms(3) by simp
  show ?thesis
  proof (cases "destination_of line")
    case (Inl e)
    then have "is_Exception e" by (auto dest: destination_of_error)
    then show ?thesis
      using a Inl body_zero [OF assms(2)]
            download_after_folder [OF ensure_folder_ready [OF assms(1)], of url]
      by (simp add: io_defs)
  next
    case (Inr p)
    show ?thesis
    proof (cases "p \<noteq> [] \<and> exists_after w p")
      case True
      then have "located w (Some p) = Some p" by (simp add: located_def)
      then show ?thesis
        using a Inr True body_zero [OF assms(2)]
              download_after_folder [OF ensure_folder_ready [OF assms(1)], of url]
        by (simp add: io_defs report_file_eq)
    next
      case False
      then have "located w (Some p) = None" by (auto simp: located_def)
      then show ?thesis
        using a Inr False body_zero [OF assms(2)]
              download_after_folder [OF ensure_folder_ready [OF assms(1)], of url]
        by (cases "fallback_scan w output_folder")
           (auto simp: io_defs split: sum.splits prod.splits)
    qed
  qed
qed

theorem first_marker_line_only_witness:
  "''[ExtractAudio] Destination: downloads/b.mp3'' \<in> set (str_split newline playlist_out) \<and>
   exists_after playlist_host ''downloads/b.mp3'' \<and>
   find_destination (str_split newline playlist_out) = Inr (Some ''downloads/a.mp3'') \<and>
   download_youtube_audio playlist_host video_url ''downloads'' =
     ([Print (''Attempting to access: '' @ video_url), Print ''Running download command...'',
       Spawn (command playlist_host video_url ''downloads''),
       Print ''Downloaded and converted to MP3: downloads/a.mp3''],
      Inr (Some ''downloads/a.mp3''))"
proof -
  have h1: "exists_before playlist_host ''downloads'' \<or>
            makedirs playlist_host ''downloads'' False = None"
    by (simp add: host_defs)
  have h2: "run playlist_host (command playlist_host video_url ''downloads'') =
              Inr (CompletedProcess 0 playlist_out [])"
    by (simp add: playlist_host_def)
  have h3: "str_split newline playlist_out =
              playlist_pre @ playlist_line # [''[ExtractAudio] Destination: downloads/b.mp3'']"
    by (simp add: host_defs str_split_def)
  have h4: "\<forall>l\<in>set playlist_pre. \<not> contains marker l"
    by (simp add: host_defs marker_def)
  have h5: "contains marker playlist_line"
    by (simp add: host_defs marker_def)
  have h6: "destination_of playlist_line = Inr ''downloads/a.mp3''"
    by (simp add: host_defs model_defs)
  have h7: "exists_after playlist_host ''downloads/a.mp3''"
       "exists_after playlist_host ''downloads/b.mp3''"
       "fst (ensure_folder playlist_host ''downloads'') = []"
    by (simp_all add: host_defs ensure_folder_def io_defs)
  show ?thesis
    using first_marker_line_only [OF h1 h2 h3 h4 h5] h3 h6 h7 by simp
qed

end
